theory Spec2Isabelle
  imports Main "HOL-Library.Sublist"
begin

section \<open>Domain setup validator: shallow embedding of \<open>app.py\<close>\<close>

text \<open>
  The program validates a domain with three checkers (\<open>dns_checks\<close>, \<open>https_check\<close>,
  \<open>cert_check\<close>) and combines their verdicts in \<open>index\<close>. Each checker mutates a result
  dictionary; here the dictionary is a record that is passed through the statements of the
  checker in source order. The network libraries (dnspython, requests, ssl/socket) and the
  clock are not part of the program: what they answer is an explicit argument of the
  checker, an exception being the \<open>Inl\<close> of a sum whose payload is the text of \<open>str(e)\<close>.

  Python strings are modelled as \<^typ>\<open>string\<close>, read as the UTF-8 bytes of the text. Every
  string operation the program uses (\<open>==\<close>, \<open>startswith("*.")\<close>, \<open>endswith\<close>,
  \<open>count(".")\<close>, \<open>rstrip(".")\<close>, \<open>san[1:]\<close> after a leading \<open>*\<close>, concatenation, \<open>in\<close> on a
  list) gives the same answer on the bytes as on the code points, since the bytes of an
  ASCII character occur in UTF-8 only as that character.
\<close>

subsection \<open>String operations of Python\<close>

definition startswith :: "string \<Rightarrow> string \<Rightarrow> bool" where
  "startswith s p = (take (length p) s = p)"

definition endswith :: "string \<Rightarrow> string \<Rightarrow> bool" where
  "endswith s p = (length p \<le> length s \<and> drop (length s - length p) s = p)"

text \<open>\<open>s.count(c)\<close> for a one-character \<open>c\<close>: the number of positions holding \<open>c\<close>.\<close>

definition str_count :: "string \<Rightarrow> char \<Rightarrow> nat" where
  "str_count s c = length (filter (\<lambda>x. x = c) s)"

text \<open>\<open>s.rstrip(chars)\<close> removes every trailing character that is in \<open>chars\<close>.\<close>

definition rstrip :: "string \<Rightarrow> string \<Rightarrow> string" where
  "rstrip s chars = rev (dropWhile (\<lambda>c. c \<in> set chars) (rev s))"

text \<open>\<open>str(n)\<close> for an integer, as an f-string prints a status code.\<close>

definition digit_char :: "nat \<Rightarrow> char" where
  "digit_char d = char_of (48 + d)"

fun str_nat :: "nat \<Rightarrow> string" where
  "str_nat n = (if n < 10 then [digit_char n] else str_nat (n div 10) @ [digit_char (n mod 10)])"

declare str_nat.simps [simp del]

definition str_int :: "int \<Rightarrow> string" where
  "str_int i = (if i < 0 then CHR ''-'' # str_nat (nat (- i)) else str_nat (nat i))"

subsection \<open>Hostname coverage (\<open>covers\<close>, nested in \<open>cert_check\<close>)\<close>

text \<open>
  \<^verbatim>\<open>
  def covers(d, san):
      if san == d: return True
      if san.startswith("*."):
          suf = san[1:]
          return d.endswith(suf) and d.count(".") > suf.count(".")
      return False
  \<close>
\<close>

definition covers :: "string \<Rightarrow> string \<Rightarrow> bool" where
  "covers d san =
     (if san = d then True
      else if startswith san ''*.'' then
        (let suf = drop 1 san
         in endswith d suf \<and> str_count d CHR ''.'' > str_count suf CHR ''.'')
      else False)"

subsection \<open>The coverage rule in the words of the specification\<close>

text \<open>
  The specification states the rule that \<open>covers\<close> implements as: an entry equal to the
  domain covers it; an entry that starts with \<open>*.\<close> covers it iff the domain ends with
  the suffix (the entry without its \<open>*\<close>, so beginning with a dot) and has strictly more
  dot-separated labels than the suffix; nothing else covers. The labels of a name are the
  pieces between its dots; those of the suffix are the labels of the name after its
  leading dot, \<open>example\<close> and \<open>com\<close> for \<open>.example.com\<close>, which is the count under which
  the specification's own example, \<open>a.example.com\<close> under \<open>*.example.com\<close>, is covered.
  This rule is defined apart from the code, to be compared with \<open>covers\<close>.
\<close>

fun split_dot :: "string \<Rightarrow> string list" where
  "split_dot [] = [[]]"
| "split_dot (c # cs) =
     (if c = CHR ''.'' then [] # split_dot cs
      else (case split_dot cs of [] \<Rightarrow> [[c]] | p # ps \<Rightarrow> (c # p) # ps))"

definition label_count :: "string \<Rightarrow> nat" where
  "label_count s = length (split_dot s)"

definition covers_rule :: "string \<Rightarrow> string \<Rightarrow> bool" where
  "covers_rule d san =
     (san = d
      \<or> (startswith san ''*.''
          \<and> (let suffix = drop 1 san
              in endswith d suffix \<and> label_count d > label_count (drop 1 suffix))))"

subsection \<open>What the libraries answer\<close>

text \<open>
  An exception is represented by the text that \<open>str(e)\<close> gives in an f-string. The world
  outside the program is a record of the five calls the checkers make:
  \<^item> \<open>resolve name rdtype\<close> stands for \<open>dns.resolver.resolve\<close> followed by the \<open>to_text()\<close>
    of each answer (for \<open>"CNAME"\<close>, of each answer's \<open>target\<close>); both happen inside
    the same inner \<open>try\<close>, so an exception of either is one \<open>Inl\<close>;
  \<^item> \<open>head url\<close> stands for \<open>requests.head(url, timeout=10, allow_redirects=True)\<close>;
  \<^item> \<open>getpeercert host\<close> stands for the connection to port 443, the handshake and
    \<open>ssock.getpeercert()\<close>; a peer that presents no certificate makes the next
    statement raise, which is one more \<open>Inl\<close>;
  \<^item> \<open>strptime s fmt\<close> is \<open>datetime.datetime.strptime\<close>, giving the instant in
    microseconds since a fixed epoch, or raising;
  \<^item> \<open>utcnow\<close> is the reading of the clock, in microseconds since the same epoch.
\<close>

type_synonym exn = string

datatype http_outcome =
    Response int
  | RequestException exn
  | OtherException exn

record peer_cert =
  notAfter :: "string option"
  subjectAltName :: "(string \<times> string) list option"
  subject :: "(string \<times> string) list list option"

record world =
  resolve :: "string \<Rightarrow> string \<Rightarrow> exn + string list"
  head :: "string \<Rightarrow> http_outcome"
  getpeercert :: "string \<Rightarrow> exn + peer_cert"
  strptime :: "string \<Rightarrow> string \<Rightarrow> exn + int"
  utcnow :: int

text \<open>Truth value of \<open>None\<close> or a string: only a non-empty string is true.\<close>

definition truthy :: "string option \<Rightarrow> bool" where
  "truthy c = (case c of None \<Rightarrow> False | Some s \<Rightarrow> s \<noteq> [])"

subsection \<open>\<open>dns_checks\<close>\<close>

record dns_result =
  dns_ok :: bool
  a_records :: "string list"
  cname :: "string option"
  dns_errors :: "string list"
  dns_notes :: "string list"

definition dns_init :: dns_result where
  "dns_init = \<lparr>dns_ok = True, a_records = [], cname = None, dns_errors = [], dns_notes = []\<rparr>"

text \<open>Lines 12-16: the A lookup; any exception leaves the empty list.\<close>

definition resolve_a :: "world \<Rightarrow> string \<Rightarrow> dns_result \<Rightarrow> dns_result" where
  "resolve_a w domain r =
     r\<lparr>a_records := (case resolve w domain ''A'' of Inl e \<Rightarrow> [] | Inr texts \<Rightarrow> texts)\<rparr>"

text \<open>
  Lines 19-24: the CNAME lookup; the first answer is taken and its trailing dots removed.
  \<open>answers[0]\<close> on no answer raises IndexError, which the same handler turns into \<open>None\<close>.
\<close>

definition resolve_cname :: "world \<Rightarrow> string \<Rightarrow> dns_result \<Rightarrow> dns_result" where
  "resolve_cname w domain r =
     r\<lparr>cname := (case resolve w domain ''CNAME'' of
                    Inl e \<Rightarrow> None
                  | Inr texts \<Rightarrow> (case texts of [] \<Rightarrow> None | t # rest \<Rightarrow> Some (rstrip t ''.'')))\<rparr>"

text \<open>Lines 26-28.\<close>

definition no_records_error :: "string \<Rightarrow> string" where
  "no_records_error domain = ''No A or CNAME records found for '' @ domain"

definition check_records :: "string \<Rightarrow> dns_result \<Rightarrow> dns_result" where
  "check_records domain r =
     (if a_records r = [] \<and> \<not> truthy (cname r)
      then r\<lparr>dns_errors := dns_errors r @ [no_records_error domain], dns_ok := False\<rparr>
      else r)"

text \<open>Lines 31-36.\<close>

definition check_expected_ip :: "string \<Rightarrow> dns_result \<Rightarrow> dns_result" where
  "check_expected_ip ip r =
     (if ip \<noteq> [] then
        (if ip \<in> set (a_records r)
         then r\<lparr>dns_notes := dns_notes r @ [''Expected IP '' @ ip @ '' present in A records.'']\<rparr>
         else r\<lparr>dns_errors := dns_errors r @ [''Expected IP '' @ ip @ '' NOT found in A records.''],
                dns_ok := False\<rparr>)
      else r)"

text \<open>
  Lines 39-47. \<open>x or d\<close>, and likewise \<open>x if x else d\<close>, is \<open>x\<close> when \<open>x\<close> is true and
  \<open>d\<close> otherwise.
\<close>

definition or_str :: "string option \<Rightarrow> string \<Rightarrow> string" where
  "or_str x d = (case x of None \<Rightarrow> d | Some s \<Rightarrow> if s = [] then d else s)"

definition found_cname :: "dns_result \<Rightarrow> string" where
  "found_cname r = or_str (cname r) ''none''"

definition cname_note :: "string \<Rightarrow> string" where
  "cname_note expected = ''CNAME matches expected ('' @ expected @ '').''"

definition cname_error :: "string \<Rightarrow> string" where
  "cname_error found = ''CNAME does not match expected. Found: '' @ [CHR 0x27] @ found @ [CHR 0x27]"

definition check_expected_cname :: "string \<Rightarrow> dns_result \<Rightarrow> dns_result" where
  "check_expected_cname expected r =
     (if expected \<noteq> [] then
        (let norm_cname = rstrip (or_str (cname r) []) ''.'';
             norm_expected = rstrip expected ''.''
         in if norm_cname = norm_expected
            then r\<lparr>dns_notes := dns_notes r @ [cname_note expected]\<rparr>
            else r\<lparr>dns_errors := dns_errors r @ [cname_error (found_cname r)], dns_ok := False\<rparr>)
      else r)"

text \<open>The comparison of line 42, negated: the normalised names differ.\<close>

definition cname_differs :: "string \<Rightarrow> dns_result \<Rightarrow> bool" where
  "cname_differs expected r \<longleftrightarrow>
     rstrip (or_str (cname r) []) ''.'' \<noteq> rstrip expected ''.''"

text \<open>
  The checker. No statement outside the two inner handlers can raise on string arguments,
  so the outer handler of lines 49-51 has nothing to catch and adds no branch.
\<close>

definition dns_checks :: "world \<Rightarrow> string \<Rightarrow> string \<Rightarrow> string \<Rightarrow> dns_result" where
  "dns_checks w domain expected_ip expected_cname =
     check_expected_cname expected_cname
       (check_expected_ip expected_ip
         (check_records domain
           (resolve_cname w domain
             (resolve_a w domain dns_init))))"

subsection \<open>\<open>https_check\<close>\<close>

record https_result =
  https_ok :: bool
  status :: "int option"
  https_errors :: "string list"

definition https_init :: https_result where
  "https_init = \<lparr>https_ok = True, status = None, https_errors = []\<rparr>"

text \<open>
  Only \<open>requests.RequestException\<close> is handled; any other exception of the call leaves
  the function, which is the \<open>Inl\<close> of the result.
\<close>

definition https_check :: "world \<Rightarrow> string \<Rightarrow> exn + https_result" where
  "https_check w domain =
     (case head w (''https://'' @ domain) of
        Response code \<Rightarrow>
          (let r = https_init\<lparr>status := Some code\<rparr>
           in Inr (if code \<ge> 400
                   then r\<lparr>https_ok := False,
                          https_errors := https_errors r @ [''HTTPS endpoint returned HTTP '' @ str_int code]\<rparr>
                   else r))
      | RequestException e \<Rightarrow>
          Inr (https_init\<lparr>https_ok := False,
                 https_errors := https_errors https_init @ [''curl/requests failed to connect: '' @ e]\<rparr>)
      | OtherException e \<Rightarrow> Inl e)"

subsection \<open>\<open>cert_check\<close>\<close>

record cert_result =
  cert_ok :: bool
  not_after :: "string option"
  days_left :: "int option"
  sans :: "string list"
  covers_domain :: bool
  cert_errors :: "string list"
  warnings :: "string list"

definition cert_init :: cert_result where
  "cert_init = \<lparr>cert_ok = True, not_after = None, days_left = None, sans = [],
                 covers_domain = False, cert_errors = [], warnings = []\<rparr>"

text \<open>
  \<open>(dt - utcnow()).days\<close>: a \<open>timedelta\<close> is normalised with its seconds and microseconds
  non-negative, so \<open>days\<close> is the floor of the difference divided by one day.
\<close>

definition us_per_day :: int where
  "us_per_day = 86400000000"

definition timedelta_days :: "int \<Rightarrow> int \<Rightarrow> int" where
  "timedelta_days dt now = (dt - now) div us_per_day"

definition expired_error :: string where
  "expired_error = ''Certificate has expired.''"

definition no_end_date_error :: string where
  "no_end_date_error = ''No certificate end date present.''"

text \<open>
  Lines 85-97. An exception of \<open>strptime\<close> leaves the block with the result as it is at
  that moment (\<open>not_after\<close> already stored): \<open>Inl\<close> carries both.
\<close>

definition check_expiry :: "world \<Rightarrow> peer_cert \<Rightarrow> cert_result \<Rightarrow> (exn \<times> cert_result) + cert_result" where
  "check_expiry w cert r =
     (case notAfter cert of
        Some not_after_str \<Rightarrow>
          (let r1 = r\<lparr>not_after := Some not_after_str\<rparr>
           in case strptime w not_after_str ''%b %d %H:%M:%S %Y %Z'' of
                Inl e \<Rightarrow> Inl (e, r1)
              | Inr dt \<Rightarrow>
                  (let d = timedelta_days dt (utcnow w);
                       r2 = r1\<lparr>days_left := Some d\<rparr>
                   in Inr (if d < 0
                           then r2\<lparr>cert_ok := False, cert_errors := cert_errors r2 @ [expired_error]\<rparr>
                           else r2)))
      | None \<Rightarrow>
          Inr (r\<lparr>cert_ok := False, cert_errors := cert_errors r @ [no_end_date_error]\<rparr>))"

text \<open>
  Lines 100-110. The \<open>break\<close> leaves the inner loop only, so a later element of
  \<open>subject\<close> that has a \<open>commonName\<close> replaces the name found in an earlier one.
\<close>

fun cn_inner :: "(string \<times> string) list \<Rightarrow> string list \<Rightarrow> string list" where
  "cn_inner [] cur = cur"
| "cn_inner ((k, v) # rest) cur = (if k = ''commonName'' then [v] else cn_inner rest cur)"

fun cn_outer :: "(string \<times> string) list list \<Rightarrow> string list \<Rightarrow> string list" where
  "cn_outer [] cur = cur"
| "cn_outer (tup # rest) cur = cn_outer rest (cn_inner tup cur)"

definition extract_sans :: "peer_cert \<Rightarrow> string list" where
  "extract_sans cert =
     (let s0 = (case subjectAltName cert of
                  None \<Rightarrow> []
                | Some entries \<Rightarrow> map snd (filter (\<lambda>(k, v). k = ''DNS'') entries))
      in if s0 = [] then (case subject cert of None \<Rightarrow> s0 | Some rdns \<Rightarrow> cn_outer rdns s0)
         else s0)"

text \<open>Lines 122-125.\<close>

definition not_covered_error :: "string \<Rightarrow> string" where
  "not_covered_error domain = ''Certificate does NOT cover domain '' @ domain @ ''.''"

definition check_cover :: "string \<Rightarrow> cert_result \<Rightarrow> cert_result" where
  "check_cover domain r =
     (let r1 = r\<lparr>covers_domain := list_ex (covers domain) (sans r)\<rparr>
      in if \<not> covers_domain r1
         then r1\<lparr>cert_ok := False, cert_errors := cert_errors r1 @ [not_covered_error domain]\<rparr>
         else r1)"

text \<open>Lines 127-129: the handler of the whole block.\<close>

definition ssl_failed :: "exn \<Rightarrow> cert_result \<Rightarrow> cert_result" where
  "ssl_failed e r = r\<lparr>cert_ok := False, cert_errors := cert_errors r @ [''openssl/SSL failed: '' @ e]\<rparr>"

definition cert_check :: "world \<Rightarrow> string \<Rightarrow> cert_result" where
  "cert_check w domain =
     (case getpeercert w domain of
        Inl e \<Rightarrow> ssl_failed e cert_init
      | Inr cert \<Rightarrow>
          (case check_expiry w cert cert_init of
             Inl (e, r) \<Rightarrow> ssl_failed e r
           | Inr r \<Rightarrow> check_cover domain (r\<lparr>sans := extract_sans cert\<rparr>)))"

subsection \<open>\<open>index\<close>: the aggregation\<close>

record report =
  rep_domain :: string
  rep_expected_ip :: string
  rep_expected_cname :: string
  rep_dns :: dns_result
  rep_https :: https_result
  rep_cert :: cert_result
  ok_all :: bool

datatype page_data = ErrorData string | Report report

text \<open>
  Lines 140-155, the body of a POST once the three form values are read and stripped.
  The checkers run in source order; an exception that leaves \<open>https_check\<close> leaves
  \<open>index\<close> too, before \<open>cert_check\<close> is called.
\<close>

definition index_post :: "world \<Rightarrow> string \<Rightarrow> string \<Rightarrow> string \<Rightarrow> exn + page_data" where
  "index_post w domain expected_ip expected_cname =
     (if domain = [] then Inr (ErrorData ''Please enter a domain.'')
      else
        (let dns_res = dns_checks w domain expected_ip expected_cname
         in case https_check w domain of
              Inl e \<Rightarrow> Inl e
            | Inr https_res \<Rightarrow>
                (let cert_res = cert_check w domain
                 in Inr (Report \<lparr>rep_domain = domain, rep_expected_ip = expected_ip,
                                  rep_expected_cname = expected_cname,
                                  rep_dns = dns_res, rep_https = https_res, rep_cert = cert_res,
                                  ok_all = (dns_ok dns_res \<and> https_ok https_res \<and> cert_ok cert_res)\<rparr>))))"

subsection \<open>Concrete worlds\<close>

text \<open>A world whose five calls answer the same thing whatever they are asked.\<close>

definition const_world ::
  "exn + string list \<Rightarrow> exn + string list \<Rightarrow> http_outcome \<Rightarrow> exn + peer_cert \<Rightarrow> exn + int \<Rightarrow> int \<Rightarrow> world" where
  "const_world a_ans cname_ans head_out cert_out parsed now =
     \<lparr>resolve = (\<lambda>name rdtype. if rdtype = ''A'' then a_ans else cname_ans),
      head = (\<lambda>url. head_out),
      getpeercert = (\<lambda>host. cert_out),
      strptime = (\<lambda>s fmt. parsed),
      utcnow = now\<rparr>"

text \<open>
  A certificate for \<open>good.example\<close> and its subdomains, and a world where it expires a
  little more than thirty days after the clock reading.
\<close>

definition good_cert :: peer_cert where
  "good_cert =
     \<lparr>notAfter = Some ''Aug 13 15:04:05 2025 GMT'',
      subjectAltName = Some [(''DNS'', ''good.example''), (''DNS'', ''*.good.example'')],
      subject = Some [[(''commonName'', ''good.example'')]]\<rparr>"

definition good_world :: world where
  "good_world =
     const_world (Inr [''192.0.2.10'']) (Inl ''The DNS response does not contain an answer'')
       (Response 200) (Inr good_cert) (Inr (30 * 86400000000 + 5)) 0"

text \<open>The report that \<open>index\<close> builds for \<open>good.example\<close> in that world.\<close>

definition good_report :: report where
  "good_report =
     \<lparr>rep_domain = ''good.example'', rep_expected_ip = [], rep_expected_cname = [],
      rep_dns = \<lparr>dns_ok = True, a_records = [''192.0.2.10''], cname = None,
                 dns_errors = [], dns_notes = []\<rparr>,
      rep_https = \<lparr>https_ok = True, status = Some 200, https_errors = []\<rparr>,
      rep_cert = \<lparr>cert_ok = True, not_after = Some ''Aug 13 15:04:05 2025 GMT'',
                  days_left = Some 30, sans = [''good.example'', ''*.good.example''],
                  covers_domain = True, cert_errors = [], warnings = []\<rparr>,
      ok_all = True\<rparr>"

text \<open>The same certificate read one day after its end date, and a certificate without one.\<close>

definition expired_world :: world where
  "expired_world =
     const_world (Inr [''192.0.2.10'']) (Inl ''The DNS response does not contain an answer'')
       (Response 200) (Inr good_cert) (Inr (- 86400000000)) 0"

definition bare_cert :: peer_cert where
  "bare_cert = \<lparr>notAfter = None, subjectAltName = Some [(''DNS'', ''good.example'')], subject = None\<rparr>"

definition bare_world :: world where
  "bare_world =
     const_world (Inr [''192.0.2.10'']) (Inl ''The DNS response does not contain an answer'')
       (Response 200) (Inr bare_cert) (Inl ''unused'') 0"

text \<open>A server that answers 404, and a host that refuses the connection.\<close>

definition not_found_world :: world where
  "not_found_world =
     const_world (Inr [''192.0.2.10'']) (Inl ''The DNS response does not contain an answer'')
       (Response 404) (Inr good_cert) (Inr (30 * 86400000000 + 5)) 0"

text \<open>The report that \<open>index\<close> builds for \<open>good.example\<close> when the server answers 404.\<close>

definition not_found_report :: report where
  "not_found_report =
     \<lparr>rep_domain = ''good.example'', rep_expected_ip = [], rep_expected_cname = [],
      rep_dns = \<lparr>dns_ok = True, a_records = [''192.0.2.10''], cname = None,
                 dns_errors = [], dns_notes = []\<rparr>,
      rep_https = \<lparr>https_ok = False, status = Some 404,
                   https_errors = [''HTTPS endpoint returned HTTP 404'']\<rparr>,
      rep_cert = \<lparr>cert_ok = True, not_after = Some ''Aug 13 15:04:05 2025 GMT'',
                  days_left = Some 30, sans = [''good.example'', ''*.good.example''],
                  covers_domain = True, cert_errors = [], warnings = []\<rparr>,
      ok_all = False\<rparr>"

definition refused_world :: world where
  "refused_world =
     const_world (Inr [''192.0.2.10'']) (Inl ''The DNS response does not contain an answer'')
       (RequestException ''Connection refused'') (Inl ''Connection refused'') (Inl ''unused'') 0"

text \<open>
  A name with neither record; an alias of \<open>foo.example.com\<close>; and a name whose CNAME
  record points at the root, which \<open>to_text()\<close> prints as a single dot.
\<close>

definition empty_world :: world where
  "empty_world =
     const_world (Inl ''The DNS query name does not exist'') (Inl ''The DNS query name does not exist'')
       (RequestException ''Name or service not known'') (Inl ''Name or service not known'')
       (Inl ''unused'') 0"


definition root_alias_world :: world where
  "root_alias_world =
     const_world (Inl ''The DNS response does not contain an answer'') (Inr [''.''])
       (Response 200) (Inr good_cert) (Inr (30 * 86400000000 + 5)) 0"

text \<open>
  A world where \<open>requests.head\<close> raises an exception that is not a
  \<open>requests.RequestException\<close>, as urllib3's \<open>LocationParseError\<close> for a host name with
  an empty label.
\<close>

definition crash_world :: world where
  "crash_world =
     const_world (Inl ''The DNS query name does not exist'') (Inl ''The DNS query name does not exist'')
       (OtherException ''Failed to parse: a..b, label empty or too long'')
       (Inl ''Name or service not known'') (Inl ''unused'') 0"

text \<open>
  For each choice of three booleans, a world in which the three checkers of
  \<open>good.example\<close> end with these \<open>ok\<close> flags.
\<close>

definition combo_world :: "bool \<Rightarrow> bool \<Rightarrow> bool \<Rightarrow> world" where
  "combo_world a b c =
     const_world (if a then Inr [''192.0.2.10''] else Inl ''The DNS query name does not exist'')
       (Inl ''The DNS response does not contain an answer'')
       (if b then Response 200 else Response 404)
       (if c then Inr good_cert else Inl ''Connection refused'')
       (Inr (30 * 86400000000 + 5)) 0"

section \<open>Properties\<close>

subsection \<open>String helpers\<close>

lemma startswith_prefix: "startswith s p \<longleftrightarrow> prefix p s"
  unfolding startswith_def prefix_def
  by (metis append_eq_conv_conj append_take_drop_id)

lemma endswith_suffix: "endswith s p \<longleftrightarrow> suffix p s"
proof
  assume "endswith s p"
  then have "s = take (length s - length p) s @ p"
    unfolding endswith_def by (metis append_take_drop_id)
  then show "suffix p s" unfolding suffix_def by blast
next
  assume "suffix p s"
  then obtain zs where "s = zs @ p" unfolding suffix_def by blast
  then show "endswith s p" unfolding endswith_def by simp
qed

lemma str_count_append: "str_count (xs @ ys) c = str_count xs c + str_count ys c"
  by (simp add: str_count_def)

lemma str_count_pos: "0 < str_count xs c \<longleftrightarrow> c \<in> set xs"
  by (simp add: str_count_def filter_empty_conv)

lemma split_dot_nonempty: "split_dot s \<noteq> []"
  by (induction s) (auto split: list.splits)

lemma label_count_dots: "label_count s = Suc (str_count s CHR ''.'')"
  unfolding label_count_def str_count_def
  by (induction s) (auto split: list.splits simp: split_dot_nonempty)

lemma str_count_drop: "str_count (drop n s) c \<le> str_count s c"
proof -
  have "str_count s c = str_count (take n s) c + str_count (drop n s) c"
    by (metis append_take_drop_id str_count_append)
  then show ?thesis by simp
qed

lemma str_int_404: "str_int 404 = ''404''"
  by code_simp

subsection \<open>The statements of \<open>dns_checks\<close>, field by field\<close>

lemma resolve_a_fields:
  "dns_ok (resolve_a w domain r) = dns_ok r"
  "dns_errors (resolve_a w domain r) = dns_errors r"
  "dns_notes (resolve_a w domain r) = dns_notes r"
  "cname (resolve_a w domain r) = cname r"
  by (simp_all add: resolve_a_def)

lemma resolve_cname_fields:
  "dns_ok (resolve_cname w domain r) = dns_ok r"
  "dns_errors (resolve_cname w domain r) = dns_errors r"
  "dns_notes (resolve_cname w domain r) = dns_notes r"
  "a_records (resolve_cname w domain r) = a_records r"
  by (simp_all add: resolve_cname_def)

lemma check_records_fields:
  "a_records (check_records domain r) = a_records r"
  "cname (check_records domain r) = cname r"
  "dns_notes (check_records domain r) = dns_notes r"
  "dns_errors (check_records domain r) =
     (if a_records r = [] \<and> \<not> truthy (cname r) then dns_errors r @ [no_records_error domain]
      else dns_errors r)"
  "dns_ok (check_records domain r) = (dns_ok r \<and> \<not> (a_records r = [] \<and> \<not> truthy (cname r)))"
  by (simp_all add: check_records_def)

lemma check_expected_ip_fields:
  "a_records (check_expected_ip ip r) = a_records r"
  "cname (check_expected_ip ip r) = cname r"
  "dns_errors (check_expected_ip ip r) =
     (if ip \<noteq> [] \<and> ip \<notin> set (a_records r)
      then dns_errors r @ [''Expected IP '' @ ip @ '' NOT found in A records.'']
      else dns_errors r)"
  "dns_ok (check_expected_ip ip r) = (dns_ok r \<and> \<not> (ip \<noteq> [] \<and> ip \<notin> set (a_records r)))"
  by (simp_all add: check_expected_ip_def)

lemma check_expected_cname_fields:
  "a_records (check_expected_cname expected r) = a_records r"
  "cname (check_expected_cname expected r) = cname r"
  "dns_errors (check_expected_cname expected r) =
     (if expected \<noteq> [] \<and> cname_differs expected r
      then dns_errors r @ [cname_error (found_cname r)]
      else dns_errors r)"
  "dns_notes (check_expected_cname expected r) =
     (if expected \<noteq> [] \<and> \<not> cname_differs expected r
      then dns_notes r @ [cname_note expected]
      else dns_notes r)"
  "dns_ok (check_expected_cname expected r) = (dns_ok r \<and> \<not> (expected \<noteq> [] \<and> cname_differs expected r))"
  by (simp_all add: check_expected_cname_def cname_differs_def Let_def)

lemmas dns_step_fields =
  resolve_a_fields resolve_cname_fields check_records_fields check_expected_ip_fields
  check_expected_cname_fields

lemma dns_checks_a_records:
  "a_records (dns_checks w domain ip cn) = (case resolve w domain ''A'' of Inl e \<Rightarrow> [] | Inr texts \<Rightarrow> texts)"
  by (simp add: dns_checks_def dns_step_fields) (simp add: resolve_a_def)

lemma dns_checks_cname:
  "cname (dns_checks w domain ip cn) =
     (case resolve w domain ''CNAME'' of
        Inl e \<Rightarrow> None
      | Inr texts \<Rightarrow> (case texts of [] \<Rightarrow> None | t # rest \<Rightarrow> Some (rstrip t ''.'')))"
  by (simp add: dns_checks_def dns_step_fields) (simp add: resolve_cname_def)

lemma dns_checks_errors:
  "dns_errors (dns_checks w domain ip cn) =
     (if a_records (dns_checks w domain ip cn) = [] \<and> \<not> truthy (cname (dns_checks w domain ip cn))
      then [no_records_error domain] else [])
     @ (if ip \<noteq> [] \<and> ip \<notin> set (a_records (dns_checks w domain ip cn))
        then [''Expected IP '' @ ip @ '' NOT found in A records.''] else [])
     @ (if cn \<noteq> [] \<and> cname_differs cn (dns_checks w domain ip cn)
        then [cname_error (found_cname (dns_checks w domain ip cn))] else [])"
  by (simp add: dns_checks_def dns_step_fields cname_differs_def found_cname_def dns_init_def)

lemma dns_checks_ok:
  "dns_ok (dns_checks w domain ip cn) \<longleftrightarrow> dns_errors (dns_checks w domain ip cn) = []"
  by (simp add: dns_checks_def dns_step_fields cname_differs_def dns_init_def)

subsection \<open>The checkers in the good world\<close>

lemma good_dns:
  "dns_checks good_world ''good.example'' [] [] = rep_dns good_report"
  by (simp add: dns_checks_def good_world_def const_world_def dns_init_def resolve_a_def
      resolve_cname_def check_records_def check_expected_ip_def check_expected_cname_def
      good_report_def)

lemma good_https:
  "https_check good_world ''good.example'' = Inr (rep_https good_report)"
  by (simp add: https_check_def good_world_def const_world_def https_init_def good_report_def)

lemma good_cert_check:
  "cert_check good_world ''good.example'' = rep_cert good_report"
  by (simp add: cert_check_def good_world_def const_world_def cert_init_def check_expiry_def
      good_cert_def timedelta_days_def us_per_day_def extract_sans_def check_cover_def
      covers_def Let_def good_report_def)

lemma good_index:
  "index_post good_world ''good.example'' [] [] = Inr (Report good_report)"
  by (simp add: index_post_def Let_def good_dns good_https good_cert_check) (simp add: good_report_def)

subsection \<open>The checkers when the server answers 404\<close>

lemma not_found_dns:
  "dns_checks not_found_world ''good.example'' [] [] = rep_dns not_found_report"
  by (simp add: dns_checks_def not_found_world_def const_world_def dns_init_def resolve_a_def
      resolve_cname_def check_records_def check_expected_ip_def check_expected_cname_def
      not_found_report_def)

lemma not_found_https:
  "https_check not_found_world ''good.example'' = Inr (rep_https not_found_report)"
  by (simp add: https_check_def not_found_world_def const_world_def https_init_def
      not_found_report_def str_int_404)

lemma not_found_cert_check:
  "cert_check not_found_world ''good.example'' = rep_cert not_found_report"
  by (simp add: cert_check_def not_found_world_def const_world_def cert_init_def check_expiry_def
      good_cert_def timedelta_days_def us_per_day_def extract_sans_def check_cover_def
      covers_def Let_def not_found_report_def)

subsection \<open>The coverage predicate of the code and the rule\<close>

text \<open>
  What the wildcard branch computes: the suffix \<open>san[1:]\<close> keeps its leading dot, so the
  domain has more dots than the suffix only when the part of the domain in front of the
  suffix itself contains a dot.
\<close>

lemma covers_wildcard_needs_dot:
  assumes "startswith san ''*.''" and "san \<noteq> d"
  shows "covers d san \<longleftrightarrow> (\<exists>x. d = x @ drop 1 san \<and> CHR ''.'' \<in> set x)"
proof -
  have "covers d san \<longleftrightarrow>
          suffix (drop 1 san) d \<and> str_count (drop 1 san) CHR ''.'' < str_count d CHR ''.''"
    using assms by (simp add: covers_def Let_def endswith_suffix)
  also have "\<dots> \<longleftrightarrow> (\<exists>x. d = x @ drop 1 san \<and> 0 < str_count x CHR ''.'')"
    unfolding suffix_def by (auto simp: str_count_append)
  finally show ?thesis by (simp add: str_count_pos)
qed

lemma covers_examples:
  "covers ''a.b.example.com'' ''*.example.com''"
  "\<not> covers ''example.com'' ''*.example.com''"
  "covers ''example.com'' ''example.com''"
  by (simp_all add: covers_def startswith_def endswith_def str_count_def)

text \<open>
  The code never accepts more than the rule of the specification does; the rule accepts
  the one-label case that the code misses.
\<close>

lemma covers_imp_covers_rule: "covers d san \<Longrightarrow> covers_rule d san"
proof -
  assume c: "covers d san"
  show ?thesis
  proof (cases "san = d")
    case True
    then show ?thesis by (simp add: covers_rule_def)
  next
    case False
    with c have w: "startswith san ''*.''" and e: "endswith d (drop 1 san)"
      and n: "str_count (drop 1 san) CHR ''.'' < str_count d CHR ''.''"
      by (auto simp: covers_def Let_def split: if_splits)
    have "str_count (drop 1 (drop 1 san)) CHR ''.'' \<le> str_count (drop 1 san) CHR ''.''"
      by (rule str_count_drop)
    with n have "label_count (drop 1 (drop 1 san)) < label_count d"
      by (simp add: label_count_dots)
    with w e show ?thesis by (simp add: covers_rule_def Let_def)
  qed
qed

lemma covers_rule_single_label: "covers_rule ''a.example.com'' ''*.example.com''"
  by (simp add: covers_rule_def startswith_def endswith_def label_count_dots str_count_def)

lemma covers_exact: "covers d d"
  by (simp add: covers_def)

lemma covers_wildcard_dotted:
  "startswith san ''*.'' \<Longrightarrow> CHR ''.'' \<in> set x \<Longrightarrow> covers (x @ drop 1 san) san"
  using covers_wildcard_needs_dot [of san "x @ drop 1 san"] covers_exact [of san]
  by (cases "san = x @ drop 1 san") auto

subsection \<open>C1: hostname coverage\<close>

text \<open>
  C1. The claim that \<open>covers("a.example.com", "*.example.com")\<close> is true, which the comment
  in the source repeats (``\<open>*.example.com\<close> covers \<open>a.example.com\<close>''), does not hold of
  the code: the domain ends with the suffix \<open>.example.com\<close>, but both strings contain two
  dots, so the comparison \<open>d.count(".") > suf.count(".")\<close> is false.
\<close>

theorem covers_single_label_wildcard:
  "\<not> covers ''a.example.com'' ''*.example.com''
   \<and> endswith ''a.example.com'' (drop 1 ''*.example.com'')
   \<and> str_count ''a.example.com'' CHR ''.'' = 2
   \<and> str_count (drop 1 ''*.example.com'') CHR ''.'' = 2"
  by (simp add: covers_def startswith_def endswith_def str_count_def)

subsection \<open>C2: the overall verdict\<close>

text \<open>
  C2. For a non-empty domain and an HTTPS checker that returns, \<open>index\<close> builds a report
  that holds the results of the three checkers on the queried domain, and its \<open>ok_all\<close> is
  the conjunction of their three \<open>ok\<close> flags. The witness shows a report whose flags are
  true, false, true with \<open>ok_all\<close> false, and one with all four true.
\<close>

theorem index_ok_all:
  assumes "domain \<noteq> []" and "https_check w domain = Inr h"
  shows "\<exists>rep. index_post w domain expected_ip expected_cname = Inr (Report rep)
           \<and> rep_domain rep = domain \<and> rep_expected_ip rep = expected_ip
           \<and> rep_expected_cname rep = expected_cname
           \<and> rep_dns rep = dns_checks w domain expected_ip expected_cname
           \<and> rep_https rep = h
           \<and> rep_cert rep = cert_check w domain
           \<and> ok_all rep = (dns_ok (rep_dns rep) \<and> https_ok (rep_https rep) \<and> cert_ok (rep_cert rep))"
  using assms by (simp add: index_post_def Let_def)

theorem index_ok_all_witness:
  "(''good.example'' \<noteq> []
    \<and> https_check not_found_world ''good.example'' = Inr (rep_https not_found_report)
    \<and> index_post not_found_world ''good.example'' [] [] = Inr (Report not_found_report)
    \<and> dns_ok (rep_dns not_found_report) \<and> \<not> https_ok (rep_https not_found_report)
    \<and> cert_ok (rep_cert not_found_report) \<and> \<not> ok_all not_found_report)
   \<and> (https_check good_world ''good.example'' = Inr (rep_https good_report)
    \<and> index_post good_world ''good.example'' [] [] = Inr (Report good_report)
    \<and> dns_ok (rep_dns good_report) \<and> https_ok (rep_https good_report)
    \<and> cert_ok (rep_cert good_report) \<and> ok_all good_report)"
proof -
  have ne: "''good.example'' \<noteq> []" by simp
  from index_ok_all [OF ne not_found_https, of "[]" "[]"]
  obtain rep where rep: "index_post not_found_world ''good.example'' [] [] = Inr (Report rep)"
    and f: "rep_domain rep = ''good.example''" "rep_expected_ip rep = []" "rep_expected_cname rep = []"
      "rep_dns rep = dns_checks not_found_world ''good.example'' [] []"
      "rep_https rep = rep_https not_found_report"
      "rep_cert rep = cert_check not_found_world ''good.example''"
      "ok_all rep = (dns_ok (rep_dns rep) \<and> https_ok (rep_https rep) \<and> cert_ok (rep_cert rep))"
    by blast
  have "rep = not_found_report"
    using f by (simp add: not_found_dns not_found_cert_check) (simp add: not_found_report_def)
  with rep have A: "index_post not_found_world ''good.example'' [] [] = Inr (Report not_found_report)"
    by simp
  from index_ok_all [OF ne good_https, of "[]" "[]"]
  obtain rep' where rep': "index_post good_world ''good.example'' [] [] = Inr (Report rep')"
    and g: "rep_domain rep' = ''good.example''" "rep_expected_ip rep' = []" "rep_expected_cname rep' = []"
      "rep_dns rep' = dns_checks good_world ''good.example'' [] []"
      "rep_https rep' = rep_https good_report"
      "rep_cert rep' = cert_check good_world ''good.example''"
      "ok_all rep' = (dns_ok (rep_dns rep') \<and> https_ok (rep_https rep') \<and> cert_ok (rep_cert rep'))"
    by blast
  have "rep' = good_report"
    using g by (simp add: good_dns good_cert_check) (simp add: good_report_def)
  with rep' have B: "index_post good_world ''good.example'' [] [] = Inr (Report good_report)"
    by simp
  from A B not_found_https good_https show ?thesis
    by (simp add: not_found_report_def good_report_def)
qed

text \<open>Each of the eight combinations of the three flags occurs in some report.\<close>

lemma combo_dns: "dns_ok (dns_checks (combo_world a b c) ''good.example'' [] []) = a"
  by (simp add: dns_checks_ok)
     (simp add: dns_checks_errors dns_checks_a_records dns_checks_cname combo_world_def
        const_world_def truthy_def)

lemma combo_https:
  "\<exists>r. https_check (combo_world a b c) ''good.example'' = Inr r \<and> https_ok r = b"
  by (simp add: https_check_def combo_world_def const_world_def https_init_def Let_def)

lemma combo_cert: "cert_ok (cert_check (combo_world a b c) ''good.example'') = c"
  by (simp add: cert_check_def combo_world_def const_world_def cert_init_def check_expiry_def
      good_cert_def timedelta_days_def us_per_day_def extract_sans_def check_cover_def
      covers_def Let_def ssl_failed_def)

lemma index_all_combinations:
  "\<exists>rep. index_post (combo_world a b c) ''good.example'' [] [] = Inr (Report rep)
      \<and> dns_ok (rep_dns rep) = a \<and> https_ok (rep_https rep) = b \<and> cert_ok (rep_cert rep) = c
      \<and> ok_all rep = (a \<and> b \<and> c)"
proof -
  obtain r where r: "https_check (combo_world a b c) ''good.example'' = Inr r" "https_ok r = b"
    using combo_https by blast
  then show ?thesis
    by (simp add: index_post_def Let_def combo_dns combo_cert)
qed

subsection \<open>C3: expiry\<close>

lemma timedelta_days_floor:
  "timedelta_days dt now * 86400000000 \<le> dt - now
   \<and> dt - now < (timedelta_days dt now + 1) * 86400000000"
proof -
  define x where "x = dt - now"
  define q where "q = x div 86400000000"
  define m where "m = x mod 86400000000"
  have eq: "x = q * 86400000000 + m"
    unfolding q_def m_def by simp
  have "0 \<le> m" and "m < 86400000000"
    unfolding m_def by simp_all
  with eq have "q * 86400000000 \<le> x \<and> x < (q + 1) * 86400000000"
    by (simp add: algebra_simps)
  then show ?thesis
    unfolding q_def x_def timedelta_days_def us_per_day_def .
qed

lemma timedelta_days_nonneg: "now \<le> dt \<Longrightarrow> 0 \<le> timedelta_days dt now"
  by (simp add: timedelta_days_def us_per_day_def pos_imp_zdiv_nonneg_iff)

lemma timedelta_days_neg: "dt < now \<Longrightarrow> timedelta_days dt now < 0"
  by (simp add: timedelta_days_def us_per_day_def neg_imp_zdiv_neg_iff)

lemma expired_neq_not_covered: "not_covered_error domain \<noteq> expired_error"
  by (simp add: not_covered_error_def expired_error_def)

lemma no_end_neq_not_covered: "not_covered_error domain \<noteq> no_end_date_error"
  by (simp add: not_covered_error_def no_end_date_error_def)

lemma check_cover_errors:
  "cert_errors (check_cover domain r) =
     (if list_ex (covers domain) (sans r) then cert_errors r else cert_errors r @ [not_covered_error domain])"
  by (simp add: check_cover_def Let_def)

lemma check_cover_ok:
  "cert_ok (check_cover domain r) = (cert_ok r \<and> list_ex (covers domain) (sans r))"
  by (simp add: check_cover_def Let_def)

lemma check_cover_fields:
  "days_left (check_cover domain r) = days_left r"
  "not_after (check_cover domain r) = not_after r"
  "sans (check_cover domain r) = sans r"
  "covers_domain (check_cover domain r) = list_ex (covers domain) (sans r)"
  by (simp_all add: check_cover_def Let_def)

text \<open>
  C3. For a certificate that was retrieved: without \<open>notAfter\<close> the error
  ``No certificate end date present.'' (the entry ends with a full stop) is recorded and
  \<open>ok\<close> is false; with a \<open>notAfter\<close> that parses to the instant \<open>dt\<close>, \<open>days_left\<close> is the
  floor of \<open>dt - utcnow\<close> in days (the largest whole number of days not above the
  difference); a negative \<open>days_left\<close> records ``Certificate has expired.'' and makes \<open>ok\<close>
  false; an end date that is not in the past records no such error.
\<close>

theorem cert_check_expiry:
  assumes "getpeercert w domain = Inr cert"
  shows "(notAfter cert = None \<longrightarrow>
            ''No certificate end date present.'' \<in> set (cert_errors (cert_check w domain))
            \<and> \<not> cert_ok (cert_check w domain))
         \<and> (\<forall>s dt. notAfter cert = Some s \<and> strptime w s ''%b %d %H:%M:%S %Y %Z'' = Inr dt \<longrightarrow>
               days_left (cert_check w domain) = Some ((dt - utcnow w) div 86400000000)
               \<and> (dt - utcnow w) div 86400000000 * 86400000000 \<le> dt - utcnow w
               \<and> dt - utcnow w < ((dt - utcnow w) div 86400000000 + 1) * 86400000000
               \<and> ((dt - utcnow w) div 86400000000 < 0 \<longrightarrow>
                     ''Certificate has expired.'' \<in> set (cert_errors (cert_check w domain))
                     \<and> \<not> cert_ok (cert_check w domain))
               \<and> (utcnow w \<le> dt \<longrightarrow>
                     ''Certificate has expired.'' \<notin> set (cert_errors (cert_check w domain))))"
proof (intro conjI impI allI)
  assume "notAfter cert = None"
  with assms show "''No certificate end date present.'' \<in> set (cert_errors (cert_check w domain))"
    by (simp add: cert_check_def check_expiry_def check_cover_errors no_end_date_error_def cert_init_def)
  from \<open>notAfter cert = None\<close> assms show "\<not> cert_ok (cert_check w domain)"
    by (simp add: cert_check_def check_expiry_def check_cover_ok)
next
  fix s dt
  assume h: "notAfter cert = Some s \<and> strptime w s ''%b %d %H:%M:%S %Y %Z'' = Inr dt"
  let ?d = "(dt - utcnow w) div 86400000000"
  have d: "timedelta_days dt (utcnow w) = ?d"
    by (simp add: timedelta_days_def us_per_day_def)
  from assms h show "days_left (cert_check w domain) = Some ?d"
    by (simp add: cert_check_def check_expiry_def Let_def check_cover_fields d)
  from timedelta_days_floor [of dt "utcnow w"] d
  show "?d * 86400000000 \<le> dt - utcnow w" and "dt - utcnow w < (?d + 1) * 86400000000"
    by simp_all
  {
    assume neg: "?d < 0"
    from assms h neg show "''Certificate has expired.'' \<in> set (cert_errors (cert_check w domain))"
      by (simp add: cert_check_def check_expiry_def Let_def check_cover_errors d expired_error_def cert_init_def)
    from assms h neg show "\<not> cert_ok (cert_check w domain)"
      by (simp add: cert_check_def check_expiry_def Let_def check_cover_ok d)
  }
  {
    assume "utcnow w \<le> dt"
    then have "\<not> ?d < 0" using timedelta_days_nonneg [of "utcnow w" dt] d by simp
    with assms h show "''Certificate has expired.'' \<notin> set (cert_errors (cert_check w domain))"
      using expired_neq_not_covered [of domain]
      by (simp add: cert_check_def check_expiry_def Let_def check_cover_errors d expired_error_def cert_init_def)
  }
qed


theorem cert_check_expiry_witness:
  "(getpeercert expired_world ''good.example'' = Inr good_cert
    \<and> notAfter good_cert = Some ''Aug 13 15:04:05 2025 GMT''
    \<and> strptime expired_world ''Aug 13 15:04:05 2025 GMT'' ''%b %d %H:%M:%S %Y %Z'' = Inr (- 86400000000)
    \<and> (- 86400000000 - utcnow expired_world) div 86400000000 < 0
    \<and> days_left (cert_check expired_world ''good.example'') = Some (- 1)
    \<and> ''Certificate has expired.'' \<in> set (cert_errors (cert_check expired_world ''good.example''))
    \<and> \<not> cert_ok (cert_check expired_world ''good.example''))
   \<and> (getpeercert good_world ''good.example'' = Inr good_cert
    \<and> strptime good_world ''Aug 13 15:04:05 2025 GMT'' ''%b %d %H:%M:%S %Y %Z'' = Inr (30 * 86400000000 + 5)
    \<and> utcnow good_world \<le> 30 * 86400000000 + 5
    \<and> days_left (cert_check good_world ''good.example'') = Some 30
    \<and> ''Certificate has expired.'' \<notin> set (cert_errors (cert_check good_world ''good.example'')))
   \<and> (getpeercert bare_world ''good.example'' = Inr bare_cert
    \<and> notAfter bare_cert = None
    \<and> ''No certificate end date present.'' \<in> set (cert_errors (cert_check bare_world ''good.example''))
    \<and> \<not> cert_ok (cert_check bare_world ''good.example''))"
proof -
  have n: "notAfter good_cert = Some ''Aug 13 15:04:05 2025 GMT''"
    by (simp add: good_cert_def)
  have e1: "getpeercert expired_world ''good.example'' = Inr good_cert"
    and e2: "strptime expired_world ''Aug 13 15:04:05 2025 GMT'' ''%b %d %H:%M:%S %Y %Z'' = Inr (- 86400000000)"
    and e3: "utcnow expired_world = 0"
    by (simp_all add: expired_world_def const_world_def)
  have g1: "getpeercert good_world ''good.example'' = Inr good_cert"
    and g2: "strptime good_world ''Aug 13 15:04:05 2025 GMT'' ''%b %d %H:%M:%S %Y %Z'' = Inr (30 * 86400000000 + 5)"
    and g3: "utcnow good_world = 0"
    by (simp_all add: good_world_def const_world_def)
  have b1: "getpeercert bare_world ''good.example'' = Inr bare_cert"
    and b2: "notAfter bare_cert = None"
    by (simp_all add: bare_world_def const_world_def bare_cert_def)
  from cert_check_expiry [OF e1] n e2 e3
  have A: "days_left (cert_check expired_world ''good.example'') = Some (- 1)
    \<and> ''Certificate has expired.'' \<in> set (cert_errors (cert_check expired_world ''good.example''))
    \<and> \<not> cert_ok (cert_check expired_world ''good.example'')"
    by simp
  from cert_check_expiry [OF g1] n g2 g3
  have B: "days_left (cert_check good_world ''good.example'') = Some 30
    \<and> ''Certificate has expired.'' \<notin> set (cert_errors (cert_check good_world ''good.example''))"
    by simp
  from cert_check_expiry [OF b1] b2
  have C: "''No certificate end date present.'' \<in> set (cert_errors (cert_check bare_world ''good.example''))
    \<and> \<not> cert_ok (cert_check bare_world ''good.example'')"
    by simp
  from A B C n e1 e2 e3 g1 g2 g3 b1 b2 show ?thesis by simp
qed

subsection \<open>C4: the HTTPS result\<close>

text \<open>
  C4. For every result that \<open>https_check\<close> returns, \<open>ok\<close> is false exactly when the request
  raised a \<open>RequestException\<close> or the status is at least 400. In the first case \<open>status\<close>
  stays \<open>None\<close> and the one error describes the failure; in the second \<open>status\<close> holds the
  code and the one error names it.
\<close>

theorem https_check_result:
  assumes "https_check w domain = Inr r"
  shows "(\<not> https_ok r \<longleftrightarrow>
            (\<exists>e. head w (''https://'' @ domain) = RequestException e)
            \<or> (\<exists>code. head w (''https://'' @ domain) = Response code \<and> code \<ge> 400))
         \<and> (\<forall>e. head w (''https://'' @ domain) = RequestException e \<longrightarrow>
               status r = None
               \<and> https_errors r = [''curl/requests failed to connect: '' @ e])
         \<and> (\<forall>code. head w (''https://'' @ domain) = Response code \<and> code \<ge> 400 \<longrightarrow>
               status r = Some code
               \<and> https_errors r = [''HTTPS endpoint returned HTTP '' @ str_int code])"
proof (cases "head w (''https://'' @ domain)")
  case (Response code)
  with assms show ?thesis
    by (auto simp: https_check_def https_init_def Let_def split: if_splits)
next
  case (RequestException e)
  with assms show ?thesis
    by (auto simp: https_check_def https_init_def)
next
  case (OtherException e)
  with assms show ?thesis
    by (simp add: https_check_def)
qed

theorem https_check_result_witness:
  "(https_check not_found_world ''good.example''
      = Inr \<lparr>https_ok = False, status = Some 404, https_errors = [''HTTPS endpoint returned HTTP 404'']\<rparr>
    \<and> head not_found_world (''https://'' @ ''good.example'') = Response 404 \<and> (404::int) \<ge> 400)
   \<and> (https_check refused_world ''good.example''
      = Inr \<lparr>https_ok = False, status = None,
             https_errors = [''curl/requests failed to connect: Connection refused'']\<rparr>
    \<and> head refused_world (''https://'' @ ''good.example'') = RequestException ''Connection refused'')"
proof -
  have a: "https_check not_found_world ''good.example''
      = Inr \<lparr>https_ok = False, status = Some 404, https_errors = [''HTTPS endpoint returned HTTP 404'']\<rparr>"
    by (simp add: https_check_def not_found_world_def const_world_def https_init_def str_int_404)
  have b: "https_check refused_world ''good.example''
      = Inr \<lparr>https_ok = False, status = None,
             https_errors = [''curl/requests failed to connect: Connection refused'']\<rparr>"
    by (simp add: https_check_def refused_world_def const_world_def https_init_def)
  from https_check_result [OF a] https_check_result [OF b] a b show ?thesis
    by (simp add: not_found_world_def refused_world_def const_world_def)
qed

subsection \<open>C5: no records\<close>

lemma no_records_error_distinct:
  "''Expected IP '' @ ip @ '' NOT found in A records.'' \<noteq> no_records_error domain"
  "no_records_error domain \<noteq> ''Expected IP '' @ ip @ '' NOT found in A records.''"
  "cname_error found \<noteq> no_records_error domain"
  "no_records_error domain \<noteq> cname_error found"
  by (simp_all add: no_records_error_def cname_error_def)

text \<open>
  C5, as stated, fails in its second half: a CNAME record that points at the root is
  found, so a CNAME is present in the result (the empty string that is left of \<open>"."\<close>),
  and yet the error is added, because the test \<open>not result["cname"]\<close> holds of the empty
  string as it does of \<open>None\<close>.
\<close>

theorem dns_no_records_counterexample:
  "resolve root_alias_world ''alias.example'' ''CNAME'' = Inr [''.'']
   \<and> cname (dns_checks root_alias_world ''alias.example'' [] []) = Some []
   \<and> ''No A or CNAME records found for alias.example''
        \<in> set (dns_errors (dns_checks root_alias_world ''alias.example'' [] []))"
  by (simp add: dns_checks_errors dns_checks_a_records dns_checks_cname)
     (simp add: root_alias_world_def const_world_def rstrip_def truthy_def no_records_error_def)

text \<open>
  C5 (amended). When the A records are empty and the CNAME is absent or empty, \<open>ok\<close> is
  false and the error ``No A or CNAME records found for \<open>domain\<close>'' is recorded; when
  there is at least one A record or a non-empty CNAME, that error is not recorded.
\<close>

theorem dns_no_records:
  "(a_records (dns_checks w domain ip cn) = []
      \<and> (cname (dns_checks w domain ip cn) = None \<or> cname (dns_checks w domain ip cn) = Some [])
    \<longrightarrow> \<not> dns_ok (dns_checks w domain ip cn)
        \<and> ''No A or CNAME records found for '' @ domain \<in> set (dns_errors (dns_checks w domain ip cn)))
   \<and> (a_records (dns_checks w domain ip cn) \<noteq> []
      \<or> (\<exists>c. cname (dns_checks w domain ip cn) = Some c \<and> c \<noteq> [])
    \<longrightarrow> ''No A or CNAME records found for '' @ domain \<notin> set (dns_errors (dns_checks w domain ip cn)))"
proof (intro conjI impI)
  assume h: "a_records (dns_checks w domain ip cn) = []
      \<and> (cname (dns_checks w domain ip cn) = None \<or> cname (dns_checks w domain ip cn) = Some [])"
  then have f: "\<not> truthy (cname (dns_checks w domain ip cn))"
    by (auto simp: truthy_def)
  from h f have e: "''No A or CNAME records found for '' @ domain \<in> set (dns_errors (dns_checks w domain ip cn))"
    by (subst dns_checks_errors) (simp add: no_records_error_def)
  then show "\<not> dns_ok (dns_checks w domain ip cn)"
    by (auto simp: dns_checks_ok)
  from e show "''No A or CNAME records found for '' @ domain \<in> set (dns_errors (dns_checks w domain ip cn))" .
next
  assume "a_records (dns_checks w domain ip cn) \<noteq> []
      \<or> (\<exists>c. cname (dns_checks w domain ip cn) = Some c \<and> c \<noteq> [])"
  then have f: "\<not> (a_records (dns_checks w domain ip cn) = [] \<and> \<not> truthy (cname (dns_checks w domain ip cn)))"
    by (auto simp: truthy_def)
  have "no_records_error domain \<notin> set (dns_errors (dns_checks w domain ip cn))"
    using f
    by (subst dns_checks_errors) (simp add: no_records_error_distinct del: append.simps)
  then show "''No A or CNAME records found for '' @ domain \<notin> set (dns_errors (dns_checks w domain ip cn))"
    by (simp add: no_records_error_def)
qed


theorem dns_no_records_witness:
  "(a_records (dns_checks empty_world ''nowhere.example'' [] []) = []
    \<and> cname (dns_checks empty_world ''nowhere.example'' [] []) = None
    \<and> \<not> dns_ok (dns_checks empty_world ''nowhere.example'' [] [])
    \<and> ''No A or CNAME records found for nowhere.example''
         \<in> set (dns_errors (dns_checks empty_world ''nowhere.example'' [] [])))
   \<and> (a_records (dns_checks good_world ''good.example'' [] []) = [''192.0.2.10'']
    \<and> ''No A or CNAME records found for good.example''
         \<notin> set (dns_errors (dns_checks good_world ''good.example'' [] [])))"
proof -
  have a: "a_records (dns_checks empty_world ''nowhere.example'' [] []) = []"
    and c: "cname (dns_checks empty_world ''nowhere.example'' [] []) = None"
    by (simp_all add: dns_checks_a_records dns_checks_cname empty_world_def const_world_def)
  have g: "a_records (dns_checks good_world ''good.example'' [] []) = [''192.0.2.10'']"
    by (simp add: dns_checks_a_records good_world_def const_world_def)
  from dns_no_records [of empty_world "''nowhere.example''" "[]" "[]"]
       dns_no_records [of good_world "''good.example''" "[]" "[]"] a c g
  show ?thesis by simp
qed

subsection \<open>C6: the expected CNAME\<close>

lemma cname_error_prefix: "startswith (cname_error found) ''CNAME does not match expected.''"
  by (simp add: cname_error_def startswith_def)







subsection \<open>C7: coverage in the certificate result\<close>

lemma ssl_failed_fields:
  "covers_domain (ssl_failed e r) = covers_domain r"
  "sans (ssl_failed e r) = sans r"
  "cert_errors (ssl_failed e r) = cert_errors r @ [''openssl/SSL failed: '' @ e]"
  "\<not> cert_ok (ssl_failed e r)"
  by (simp_all add: ssl_failed_def)

lemma ssl_failed_neq_not_covered:
  "''openssl/SSL failed: '' @ e \<noteq> not_covered_error domain"
  by (simp add: not_covered_error_def)

lemma check_cover_covers_domain:
  "covers_domain (check_cover domain r) \<longleftrightarrow> (\<exists>s \<in> set (sans r). covers domain s)"
  by (simp add: check_cover_fields list_ex_iff)

text \<open>
  C7, as stated, fails where the certificate is never read: when the connection fails,
  \<open>covers_domain\<close> keeps its initial \<open>False\<close> and the only error is the one of the handler,
  not ``Certificate does NOT cover domain ...''.
\<close>

theorem cert_cover_counterexample:
  "\<not> covers_domain (cert_check refused_world ''good.example'')
   \<and> ''Certificate does NOT cover domain good.example.''
        \<notin> set (cert_errors (cert_check refused_world ''good.example''))"
  by (simp add: cert_check_def refused_world_def const_world_def ssl_failed_def cert_init_def)

text \<open>
  C7 (amended). \<open>covers_domain\<close> is true only if some entry of the result's \<open>sans\<close> covers
  the queried domain under the exact-or-wildcard rule, and a false \<open>covers_domain\<close> comes
  with a false \<open>ok\<close>. When the certificate was retrieved and its end date is absent or
  parsed: \<open>sans\<close> holds the names taken from the certificate; \<open>covers_domain\<close> is true if
  one of them equals the domain, or is a wildcard whose suffix the domain ends with after
  a part that contains a dot; and a false \<open>covers_domain\<close> records
  ``Certificate does NOT cover domain \<open>domain\<close>.''. When the retrieval or the parsing
  raised, \<open>covers_domain\<close> is false and the one error is the handler's. Nothing is said of
  a domain that is one label in front of a wildcard's suffix.
\<close>

theorem cert_cover:
  "(covers_domain (cert_check w domain) \<longrightarrow>
      (\<exists>s \<in> set (sans (cert_check w domain)). covers_rule domain s))
   \<and> (\<not> covers_domain (cert_check w domain) \<longrightarrow> \<not> cert_ok (cert_check w domain))
   \<and> (\<forall>cert. getpeercert w domain = Inr cert
          \<and> (notAfter cert = None
              \<or> (\<exists>s dt. notAfter cert = Some s \<and> strptime w s ''%b %d %H:%M:%S %Y %Z'' = Inr dt))
        \<longrightarrow> sans (cert_check w domain) = extract_sans cert
            \<and> ((\<exists>s \<in> set (extract_sans cert).
                   s = domain
                   \<or> (startswith s ''*.'' \<and> (\<exists>x. domain = x @ drop 1 s \<and> CHR ''.'' \<in> set x)))
                 \<longrightarrow> covers_domain (cert_check w domain))
            \<and> (\<not> covers_domain (cert_check w domain) \<longrightarrow>
                  ''Certificate does NOT cover domain '' @ domain @ ''.''
                    \<in> set (cert_errors (cert_check w domain))))
   \<and> (\<forall>e. getpeercert w domain = Inl e
          \<or> (\<exists>cert s. getpeercert w domain = Inr cert \<and> notAfter cert = Some s
                \<and> strptime w s ''%b %d %H:%M:%S %Y %Z'' = Inl e)
        \<longrightarrow> \<not> covers_domain (cert_check w domain)
            \<and> cert_errors (cert_check w domain) = [''openssl/SSL failed: '' @ e])"
proof -
  have reached: "covers_domain (check_cover domain r) \<longrightarrow>
        (\<exists>s \<in> set (sans (check_cover domain r)). covers_rule domain s)" for r
    by (auto simp: check_cover_covers_domain check_cover_fields dest: covers_imp_covers_rule)
  have enough: "(\<exists>s \<in> set (sans r).
                   s = domain
                   \<or> (startswith s ''*.'' \<and> (\<exists>x. domain = x @ drop 1 s \<and> CHR ''.'' \<in> set x)))
        \<longrightarrow> covers_domain (check_cover domain r)" for r
    unfolding check_cover_covers_domain
    using covers_exact covers_wildcard_dotted by blast
  show ?thesis
  proof (cases "getpeercert w domain")
    case (Inl e)
    then show ?thesis
      by (simp add: cert_check_def ssl_failed_def cert_init_def)
  next
    case (Inr cert)
    show ?thesis
    proof (cases "notAfter cert")
      case None
      let ?r = "cert_init\<lparr>cert_ok := False, cert_errors := cert_errors cert_init @ [no_end_date_error],
                  sans := extract_sans cert\<rparr>"
      from Inr None have eq: "cert_check w domain = check_cover domain ?r"
        by (simp add: cert_check_def check_expiry_def)
      from reached [of ?r] enough [of ?r] Inr None show ?thesis
        unfolding eq
        by (simp add: check_cover_fields check_cover_ok check_cover_errors not_covered_error_def)
    next
      case (Some s)
      show ?thesis
      proof (cases "strptime w s ''%b %d %H:%M:%S %Y %Z''")
        case (Inl e)
        with \<open>getpeercert w domain = Inr cert\<close> Some show ?thesis
          by (simp add: cert_check_def check_expiry_def Let_def ssl_failed_def cert_init_def)
      next
        case (Inr dt)
        obtain r0 where r0: "check_expiry w cert cert_init = Inr r0"
          using Some Inr by (simp add: check_expiry_def Let_def)
        let ?r = "r0\<lparr>sans := extract_sans cert\<rparr>"
        from \<open>getpeercert w domain = Inr cert\<close> r0 have eq: "cert_check w domain = check_cover domain ?r"
          by (simp add: cert_check_def)
        from reached [of ?r] enough [of ?r] \<open>getpeercert w domain = Inr cert\<close> Some Inr show ?thesis
          unfolding eq
          by (simp add: check_cover_fields check_cover_ok check_cover_errors not_covered_error_def)
      qed
    qed
  qed
qed


theorem cert_cover_witness:
  "(getpeercert good_world ''good.example'' = Inr good_cert
    \<and> notAfter good_cert = Some ''Aug 13 15:04:05 2025 GMT''
    \<and> strptime good_world ''Aug 13 15:04:05 2025 GMT'' ''%b %d %H:%M:%S %Y %Z'' = Inr (30 * 86400000000 + 5)
    \<and> extract_sans good_cert = [''good.example'', ''*.good.example'']
    \<and> covers_domain (cert_check good_world ''good.example''))
   \<and> (startswith ''*.good.example'' ''*.''
    \<and> ''a.b.good.example'' = ''a.b'' @ drop 1 ''*.good.example''
    \<and> CHR ''.'' \<in> set ''a.b''
    \<and> covers_rule ''a.b.good.example'' ''*.good.example''
    \<and> covers_domain (cert_check good_world ''a.b.good.example''))
   \<and> (\<not> covers_rule ''other.example'' ''good.example''
    \<and> \<not> covers_rule ''other.example'' ''*.good.example''
    \<and> sans (cert_check good_world ''other.example'') = [''good.example'', ''*.good.example'']
    \<and> \<not> covers_domain (cert_check good_world ''other.example'')
    \<and> ''Certificate does NOT cover domain other.example.''
         \<in> set (cert_errors (cert_check good_world ''other.example''))
    \<and> \<not> cert_ok (cert_check good_world ''other.example''))
   \<and> (getpeercert refused_world ''good.example'' = Inl ''Connection refused''
    \<and> \<not> covers_domain (cert_check refused_world ''good.example'')
    \<and> cert_errors (cert_check refused_world ''good.example'') = [''openssl/SSL failed: Connection refused''])"
proof -
  have g: "getpeercert good_world d = Inr good_cert" for d
    by (simp add: good_world_def const_world_def)
  have p: "strptime good_world ''Aug 13 15:04:05 2025 GMT'' ''%b %d %H:%M:%S %Y %Z'' = Inr (30 * 86400000000 + 5)"
    by (simp add: good_world_def const_world_def)
  have n: "notAfter good_cert = Some ''Aug 13 15:04:05 2025 GMT''"
    by (simp add: good_cert_def)
  have x: "extract_sans good_cert = [''good.example'', ''*.good.example'']"
    by (simp add: extract_sans_def good_cert_def)
  have w: "startswith ''*.good.example'' ''*.''"
    and d: "''a.b.good.example'' = ''a.b'' @ drop 1 ''*.good.example''"
    and dot: "CHR ''.'' \<in> set ''a.b''"
    by (simp_all add: startswith_def)
  have yes: "covers_rule ''a.b.good.example'' ''*.good.example''"
    by (simp add: covers_rule_def startswith_def endswith_def label_count_dots str_count_def)
  have no: "\<not> covers_rule ''other.example'' ''good.example''"
    "\<not> covers_rule ''other.example'' ''*.good.example''"
    by (simp_all add: covers_rule_def startswith_def endswith_def)
  have r: "getpeercert refused_world ''good.example'' = Inl ''Connection refused''"
    by (simp add: refused_world_def const_world_def)
  from cert_cover [of good_world "''good.example''"] g p n x
  have A: "covers_domain (cert_check good_world ''good.example'')"
    by simp
  from cert_cover [of good_world "''a.b.good.example''"] g p n x w d dot
  have B: "covers_domain (cert_check good_world ''a.b.good.example'')"
    by (metis list.set_intros(1,2))
  from cert_cover [of good_world "''other.example''"] g p n x no
  have C: "sans (cert_check good_world ''other.example'') = [''good.example'', ''*.good.example'']
    \<and> \<not> covers_domain (cert_check good_world ''other.example'')
    \<and> ''Certificate does NOT cover domain other.example.''
         \<in> set (cert_errors (cert_check good_world ''other.example''))
    \<and> \<not> cert_ok (cert_check good_world ''other.example'')"
    by auto
  from cert_cover [of refused_world "''good.example''"] r
  have D: "\<not> covers_domain (cert_check refused_world ''good.example'')
    \<and> cert_errors (cert_check refused_world ''good.example'') = [''openssl/SSL failed: Connection refused'']"
    by auto
  from A B C D g p n x w d dot yes no r show ?thesis by blast
qed

subsection \<open>C8: \<open>ok\<close> of the DNS result\<close>

text \<open>
  C8. In the result of \<open>dns_checks\<close>, \<open>ok\<close> is false whenever \<open>errors\<close> is non-empty. \<open>ok\<close>
  starts true; no statement of the checker turns a false \<open>ok\<close> into a true one; the two
  lookups leave it alone; and a check that turns it false appends the error of the
  condition it detected.
\<close>

theorem dns_ok_invariant:
  "(dns_errors (dns_checks w domain ip cn) \<noteq> [] \<longrightarrow> \<not> dns_ok (dns_checks w domain ip cn))
   \<and> dns_ok dns_init
   \<and> (\<not> dns_ok r \<longrightarrow>
         \<not> dns_ok (resolve_a w domain r) \<and> \<not> dns_ok (resolve_cname w domain r)
         \<and> \<not> dns_ok (check_records domain r) \<and> \<not> dns_ok (check_expected_ip ip r)
         \<and> \<not> dns_ok (check_expected_cname cn r))
   \<and> (dns_ok r \<longrightarrow>
         dns_ok (resolve_a w domain r) \<and> dns_ok (resolve_cname w domain r)
         \<and> (\<not> dns_ok (check_records domain r) \<longrightarrow>
               dns_errors (check_records domain r)
                 = dns_errors r @ [''No A or CNAME records found for '' @ domain])
         \<and> (\<not> dns_ok (check_expected_ip ip r) \<longrightarrow>
               dns_errors (check_expected_ip ip r)
                 = dns_errors r @ [''Expected IP '' @ ip @ '' NOT found in A records.''])
         \<and> (\<not> dns_ok (check_expected_cname cn r) \<longrightarrow>
               dns_errors (check_expected_cname cn r) = dns_errors r @ [cname_error (found_cname r)]))"
  by (simp add: dns_checks_ok dns_step_fields dns_init_def no_records_error_def del: append.simps)

theorem dns_ok_invariant_witness:
  "(dns_errors (dns_checks empty_world ''nowhere.example'' ''192.0.2.10'' []) \<noteq> []
    \<and> \<not> dns_ok (dns_checks empty_world ''nowhere.example'' ''192.0.2.10'' []))
   \<and> (\<not> dns_ok (dns_init\<lparr>dns_ok := False, a_records := [''192.0.2.10'']\<rparr>)
    \<and> \<not> dns_ok (check_expected_ip ''192.0.2.10'' (dns_init\<lparr>dns_ok := False, a_records := [''192.0.2.10'']\<rparr>)))
   \<and> (dns_ok dns_init
    \<and> \<not> dns_ok (check_records ''nowhere.example'' dns_init)
    \<and> dns_errors (check_records ''nowhere.example'' dns_init)
        = dns_errors dns_init @ [''No A or CNAME records found for '' @ ''nowhere.example''])"
proof -
  have e: "dns_errors (dns_checks empty_world ''nowhere.example'' ''192.0.2.10'' []) \<noteq> []"
    by (subst dns_checks_errors)
       (simp add: dns_checks_a_records dns_checks_cname empty_world_def const_world_def truthy_def)
  have f: "\<not> dns_ok (dns_init\<lparr>dns_ok := False, a_records := [''192.0.2.10'']\<rparr>)"
    by simp
  have g: "dns_ok dns_init" and h: "\<not> dns_ok (check_records ''nowhere.example'' dns_init)"
    by (simp_all add: dns_init_def check_records_def truthy_def)
  from dns_ok_invariant [of empty_world "''nowhere.example''" "''192.0.2.10''" "[]"
         "dns_init\<lparr>dns_ok := False, a_records := [''192.0.2.10'']\<rparr>"]
       dns_ok_invariant [of empty_world "''nowhere.example''" "''192.0.2.10''" "[]" dns_init]
       e f g h
  show ?thesis by blast
qed

subsection \<open>C9: exceptions that leave a checker\<close>

text \<open>
  \<open>dns_checks\<close> and \<open>cert_check\<close> give a result for whatever the libraries answer: they are
  total functions of the world, every \<open>Inl\<close> of a library call being turned into a field
  of the result. \<open>https_check\<close> handles \<open>requests.RequestException\<close> only.

  C9. An exception of \<open>requests.head\<close> outside that class is not turned into a result:
  it leaves \<open>https_check\<close>, and \<open>index\<close> with it.
\<close>

theorem https_check_propagates:
  "https_check crash_world ''a..b'' = Inl ''Failed to parse: a..b, label empty or too long''
   \<and> index_post crash_world ''a..b'' [] [] = Inl ''Failed to parse: a..b, label empty or too long''"
  by (simp add: index_post_def https_check_def crash_world_def const_world_def Let_def)

text \<open>\<open>https_check\<close> returns exactly when the call raises nothing outside that class.\<close>

lemma https_check_returns:
  "(\<exists>r. https_check w domain = Inr r) \<longleftrightarrow> (\<forall>e. head w (''https://'' @ domain) \<noteq> OtherException e)"
  by (cases "head w (''https://'' @ domain)") (simp_all add: https_check_def Let_def)

subsection \<open>C10: the certificate result is ok exactly without errors\<close>

lemma ssl_failed_iff: "cert_ok (ssl_failed e r) \<longleftrightarrow> cert_errors (ssl_failed e r) = []"
  by (simp add: ssl_failed_def)

text \<open>
  C10. In every result of \<open>cert_check\<close>, \<open>ok\<close> is false exactly when \<open>errors\<close> is non-empty.
\<close>

theorem cert_ok_iff_no_errors:
  "cert_ok (cert_check w domain) \<longleftrightarrow> cert_errors (cert_check w domain) = []"
proof (cases "getpeercert w domain")
  case (Inl e)
  then show ?thesis by (simp add: cert_check_def ssl_failed_iff)
next
  case (Inr cert)
  show ?thesis
  proof (cases "notAfter cert")
    case None
    with Inr show ?thesis
      by (simp add: cert_check_def check_expiry_def check_cover_ok check_cover_errors)
  next
    case (Some s)
    show ?thesis
    proof (cases "strptime w s ''%b %d %H:%M:%S %Y %Z''")
      case (Inl e)
      with Inr Some show ?thesis
        by (simp add: cert_check_def check_expiry_def Let_def ssl_failed_iff)
    next
      case (Inr dt)
      with \<open>getpeercert w domain = Inr cert\<close> Some show ?thesis
        by (simp add: cert_check_def check_expiry_def Let_def check_cover_ok check_cover_errors
            cert_init_def)
    qed
  qed
qed

end
